theory Spec2Isabelle
  imports Main
begin

section \<open>The criteria translator: \<open>ImapService.buildSearchCriteria\<close>\<close>

text \<open>
  A JavaScript \<open>Date\<close> is an object holding a time value or NaN. As an object it is
  truthy whatever it holds, so \<open>if (criteria.since)\<close> asks only whether the field is
  there.
\<close>

datatype js_date = Date int | InvalidDate

text \<open>
  \<open>SearchCriteria\<close>: every field is optional (\<open>None\<close> is \<open>undefined\<close>). The fields
  \<open>from\<close> and \<open>to\<close> carry the prefix \<open>c_\<close>, as all the others then do.
\<close>

record SearchCriteria =
  c_from :: "string option"
  c_to :: "string option"
  c_subject :: "string option"
  c_body :: "string option"
  c_since :: "js_date option"
  c_before :: "js_date option"
  c_seen :: "bool option"
  c_flagged :: "bool option"
  c_answered :: "bool option"
  c_draft :: "bool option"

text \<open>
  An element of the \<open>any[]\<close> the translator returns: a bare string (\<open>'SEEN'\<close>,
  \<open>'ALL'\<close>), a pair of a key and a string (\<open>['FROM', v]\<close>), or a pair of a key and a
  date (\<open>['SINCE', d]\<close>).
\<close>

datatype search_term =
  Keyword string
  | StrPair string string
  | DatePair string js_date

text \<open>
  \<open>if (criteria.from) searchArray.push(['FROM', criteria.from])\<close>: the guard is
  JavaScript truthiness, so \<open>undefined\<close> and the empty string both push nothing.
\<close>

definition push_str :: "string \<Rightarrow> string option \<Rightarrow> search_term list \<Rightarrow> search_term list" where
  "push_str key v searchArray =
     (case v of
        None \<Rightarrow> searchArray
      | Some s \<Rightarrow> if s = [] then searchArray else searchArray @ [StrPair key s])"

text \<open>\<open>if (criteria.since) searchArray.push(['SINCE', criteria.since])\<close>: a date is truthy.\<close>

definition push_date :: "string \<Rightarrow> js_date option \<Rightarrow> search_term list \<Rightarrow> search_term list" where
  "push_date key v searchArray =
     (case v of
        None \<Rightarrow> searchArray
      | Some d \<Rightarrow> searchArray @ [DatePair key d])"

text \<open>
  \<open>if (criteria.seen !== undefined) searchArray.push(criteria.seen ? 'SEEN' : 'UNSEEN')\<close>.
\<close>

definition push_flag :: "string \<Rightarrow> string \<Rightarrow> bool option \<Rightarrow> search_term list \<Rightarrow> search_term list" where
  "push_flag pos neg v searchArray =
     (case v of
        None \<Rightarrow> searchArray
      | Some b \<Rightarrow> searchArray @ [Keyword (if b then pos else neg)])"

definition buildSearchCriteria :: "SearchCriteria \<Rightarrow> search_term list" where
  "buildSearchCriteria criteria =
     (let searchArray = [];
          searchArray = push_str ''FROM'' (c_from criteria) searchArray;
          searchArray = push_str ''TO'' (c_to criteria) searchArray;
          searchArray = push_str ''SUBJECT'' (c_subject criteria) searchArray;
          searchArray = push_str ''BODY'' (c_body criteria) searchArray;
          searchArray = push_date ''SINCE'' (c_since criteria) searchArray;
          searchArray = push_date ''BEFORE'' (c_before criteria) searchArray;
          searchArray = push_flag ''SEEN'' ''UNSEEN'' (c_seen criteria) searchArray;
          searchArray = push_flag ''FLAGGED'' ''UNFLAGGED'' (c_flagged criteria) searchArray;
          searchArray = push_flag ''ANSWERED'' ''UNANSWERED'' (c_answered criteria) searchArray;
          searchArray = push_flag ''DRAFT'' ''UNDRAFT'' (c_draft criteria) searchArray
      in if length searchArray > 0 then searchArray else [Keyword ''ALL''])"

subsection \<open>Counting predicates\<close>

text \<open>
  The number of predicates of a criteria object that are not unset, in the words of the
  specification: a field counts as soon as it is not \<open>undefined\<close>.
\<close>

definition present :: "'a option \<Rightarrow> nat" where
  "present v = (case v of None \<Rightarrow> 0 | Some _ \<Rightarrow> 1)"

definition non_unset_count :: "SearchCriteria \<Rightarrow> nat" where
  "non_unset_count c =
     present (c_from c) + present (c_to c) + present (c_subject c) + present (c_body c)
     + present (c_since c) + present (c_before c)
     + present (c_seen c) + present (c_flagged c) + present (c_answered c) + present (c_draft c)"

text \<open>
  The number of predicates that pass the guards of the code: a substring predicate
  counts when it is a non-empty string.
\<close>

definition present_str :: "string option \<Rightarrow> nat" where
  "present_str v = (case v of None \<Rightarrow> 0 | Some s \<Rightarrow> if s = [] then 0 else 1)"

definition effective_count :: "SearchCriteria \<Rightarrow> nat" where
  "effective_count c =
     present_str (c_from c) + present_str (c_to c) + present_str (c_subject c)
     + present_str (c_body c)
     + present (c_since c) + present (c_before c)
     + present (c_seen c) + present (c_flagged c) + present (c_answered c) + present (c_draft c)"

text \<open>The position of a term's field in the order the source tests the fields.\<close>

definition key_rank :: "string \<Rightarrow> nat" where
  "key_rank k =
     (if k = ''FROM'' then 0
      else if k = ''TO'' then 1
      else if k = ''SUBJECT'' then 2
      else if k = ''BODY'' then 3
      else if k = ''SINCE'' then 4
      else if k = ''BEFORE'' then 5
      else if k = ''SEEN'' \<or> k = ''UNSEEN'' then 6
      else if k = ''FLAGGED'' \<or> k = ''UNFLAGGED'' then 7
      else if k = ''ANSWERED'' \<or> k = ''UNANSWERED'' then 8
      else if k = ''DRAFT'' \<or> k = ''UNDRAFT'' then 9
      else 10)"

fun term_rank :: "search_term \<Rightarrow> nat" where
  "term_rank (Keyword k) = key_rank k"
| "term_rank (StrPair k _) = key_rank k"
| "term_rank (DatePair k _) = key_rank k"

text \<open>The criteria object \<open>{}\<close>.\<close>

definition no_criteria :: SearchCriteria where
  "no_criteria =
     \<lparr>c_from = None, c_to = None, c_subject = None, c_body = None,
      c_since = None, c_before = None,
      c_seen = None, c_flagged = None, c_answered = None, c_draft = None\<rparr>"


section \<open>The folder parser: \<open>ImapService.parseBoxes\<close>\<close>

text \<open>
  The tree the session library hands to \<open>getBoxes\<close>'s callback: an object whose keys are
  leaf names and whose values carry \<open>delimiter\<close>, \<open>attribs\<close> and \<open>children\<close> (null or
  another such object). \<open>Object.entries\<close> lists an object as ordered pairs, so a level of
  the tree is a list of pairs.
\<close>

datatype box = Box (box_delimiter: string) (box_attribs: "string list option")
  (box_children: "(string \<times> box) list option")

datatype folder = Folder (folder_name: string) (folder_delimiter: string)
  (folder_attributes: "string list") (folder_children: "folder list option")

text \<open>
  \<open>parentPath ? `${parentPath}${boxData.delimiter}${name}` : name\<close>: the empty string
  is falsy. \<open>boxData.attribs || []\<close>; \<open>if (boxData.children)\<close> holds for every object,
  the empty one too.
\<close>

function parseBoxes :: "(string \<times> box) list \<Rightarrow> string \<Rightarrow> folder list" where
  "parseBoxes [] parentPath = []"
| "parseBoxes ((name, boxData) # rest) parentPath =
     (let fname = (if parentPath \<noteq> [] then parentPath @ box_delimiter boxData @ name else name);
          folder = Folder fname (box_delimiter boxData)
            (case box_attribs boxData of None \<Rightarrow> [] | Some a \<Rightarrow> a)
            (case box_children boxData of
               None \<Rightarrow> None
             | Some children \<Rightarrow> Some (parseBoxes children fname))
      in folder # parseBoxes rest parentPath)"
  by pat_completeness auto
termination
proof (relation "measure (\<lambda>(boxes, _). size_list (size_prod (\<lambda>_. 0) size) boxes)")
  show "wf (measure (\<lambda>(boxes, _). size_list (size_prod (\<lambda>_. 0) size) boxes))"
    by simp
next
  fix name :: string and boxData rest and parentPath x :: string and x2
  assume "box_children boxData = Some x2"
  then show "((x2, x), (name, boxData) # rest, parentPath)
      \<in> measure (\<lambda>(boxes, _). size_list (size_prod (\<lambda>_. 0) size) boxes)"
    by (cases boxData) simp
next
  fix name :: string and boxData :: box and rest and parentPath :: string
  show "((rest, parentPath), (name, boxData) # rest, parentPath)
      \<in> measure (\<lambda>(boxes, _). size_list (size_prod (\<lambda>_. 0) size) boxes)"
    by simp
qed

declare parseBoxes.simps [simp del]

subsection \<open>Walking the two trees\<close>

text \<open>
  The entry of a box tree, and the folder of a folder forest, reached by a path of
  positions: \<open>[i, j]\<close> is entry \<open>j\<close> among the children of entry \<open>i\<close> of the top level.
\<close>

fun box_at :: "(string \<times> box) list \<Rightarrow> nat list \<Rightarrow> (string \<times> box) option" where
  "box_at boxes [] = None"
| "box_at boxes [i] = (if i < length boxes then Some (boxes ! i) else None)"
| "box_at boxes (i # j # p) =
     (if i < length boxes
      then (case box_children (snd (boxes ! i)) of
              None \<Rightarrow> None
            | Some children \<Rightarrow> box_at children (j # p))
      else None)"

fun folder_at :: "folder list \<Rightarrow> nat list \<Rightarrow> folder option" where
  "folder_at folders [] = None"
| "folder_at folders [i] = (if i < length folders then Some (folders ! i) else None)"
| "folder_at folders (i # j # p) =
     (if i < length folders
      then (case folder_children (folders ! i) of
              None \<Rightarrow> None
            | Some children \<Rightarrow> folder_at children (j # p))
      else None)"

text \<open>The tree \<open>{A: {delimiter: '/', children: {B: {delimiter: '.', children: null}}}}\<close>.\<close>

definition two_delimiters :: "(string \<times> box) list" where
  "two_delimiters = [(''A'', Box ''/'' None (Some [(''B'', Box ''.'' None None)]))]"

section \<open>Composing a reply and a forward: the tool handlers\<close>

text \<open>
  The fields of an account and of a fetched message that the handlers read. The record
  types are declared in \<open>types/index.ts\<close>; the fields here are those the code uses.
\<close>

record ImapAccount =
  acc_id :: string
  acc_user :: string
  acc_password :: string
  acc_host :: string
  acc_port :: int
  acc_tls :: bool
  acc_authTimeout :: "int option"
  acc_connTimeout :: "int option"
  acc_keepalive :: "bool option"

record EmailContent =
  email_uid :: int
  email_date :: js_date
  email_from :: string
  email_to :: "string list"
  email_subject :: string
  email_messageId :: string
  email_inReplyTo :: "string option"
  email_textContent :: "string option"
  email_htmlContent :: "string option"

text \<open>\<open>String.prototype.startsWith\<close>, on the code units of the two strings.\<close>

definition startsWith :: "string \<Rightarrow> string \<Rightarrow> bool" where
  "startsWith s p = (take (length p) s = p)"

text \<open>
  \<open>originalEmail.subject.startsWith('Re: ') ? originalEmail.subject
    : `Re: ${originalEmail.subject}`\<close>, and the same with \<open>'Fwd: '\<close>.
\<close>

definition reply_subject :: "string \<Rightarrow> string" where
  "reply_subject subject = (if startsWith subject ''Re: '' then subject else ''Re: '' @ subject)"

definition forward_subject :: "string \<Rightarrow> string" where
  "forward_subject subject =
     (if startsWith subject ''Fwd: '' then subject else ''Fwd: '' @ subject)"

text \<open>
  \<open>const recipients = [originalEmail.from];
    if (replyAll) recipients.push(...originalEmail.to.filter(addr => addr !== account.user));\<close>
\<close>

definition reply_recipients :: "ImapAccount \<Rightarrow> EmailContent \<Rightarrow> bool \<Rightarrow> string list" where
  "reply_recipients account originalEmail replyAll =
     (let recipients = [email_from originalEmail]
      in if replyAll
         then recipients @ filter (\<lambda>addr. addr \<noteq> acc_user account) (email_to originalEmail)
         else recipients)"

text \<open>
  The \<open>emailComposer\<close> object of \<open>imap_reply_to_email\<close>, without its attachments (the
  caller's own, decoded from base64; nothing of the original message enters them).
\<close>

record ReplyComposer =
  reply_from :: string
  reply_to :: "string list"
  reply_subj :: string
  reply_text :: "string option"
  reply_html :: "string option"
  reply_inReplyTo :: string
  reply_references :: string

definition reply_emailComposer ::
  "ImapAccount \<Rightarrow> EmailContent \<Rightarrow> string option \<Rightarrow> string option \<Rightarrow> bool \<Rightarrow> ReplyComposer" where
  "reply_emailComposer account originalEmail text_arg html replyAll =
     \<lparr>reply_from = acc_user account,
      reply_to = reply_recipients account originalEmail replyAll,
      reply_subj = reply_subject (email_subject originalEmail),
      reply_text = text_arg,
      reply_html = html,
      reply_inReplyTo = email_messageId originalEmail,
      reply_references = email_messageId originalEmail\<rparr>"

text \<open>
  The \<open>emailComposer\<close> object of \<open>imap_forward_email\<close>. \<open>to\<close> is a string or an array of
  strings and is passed on as it came; \<open>Date.prototype.toLocaleString\<close> depends on the
  host's locale and is a parameter. \<open>text || ''\<close> and \<open>textContent || ''\<close> read an absent
  string as the empty one.
\<close>

datatype recipients = One string | Many "string list"

fun join_comma :: "string list \<Rightarrow> string" where
  "join_comma [] = []"
| "join_comma [x] = x"
| "join_comma (x # y # ys) = x @ '', '' @ join_comma (y # ys)"

definition or_empty :: "string option \<Rightarrow> string" where
  "or_empty v = (case v of None \<Rightarrow> [] | Some s \<Rightarrow> s)"

definition forwardHeader :: "(js_date \<Rightarrow> string) \<Rightarrow> EmailContent \<Rightarrow> string" where
  "forwardHeader toLocaleString originalEmail =
     [CHR 0x0A, CHR 0x0A] @ ''---------- Forwarded message ----------'' @ [CHR 0x0A]
     @ ''From: '' @ email_from originalEmail @ [CHR 0x0A]
     @ ''Date: '' @ toLocaleString (email_date originalEmail) @ [CHR 0x0A]
     @ ''Subject: '' @ email_subject originalEmail @ [CHR 0x0A]
     @ ''To: '' @ join_comma (email_to originalEmail) @ [CHR 0x0A, CHR 0x0A]"

record ForwardComposer =
  fwd_from :: string
  fwd_to :: recipients
  fwd_subj :: string
  fwd_text :: string
  fwd_html :: "string option"
  fwd_references :: string

definition forward_emailComposer ::
  "(js_date \<Rightarrow> string) \<Rightarrow> ImapAccount \<Rightarrow> EmailContent \<Rightarrow> recipients \<Rightarrow> string option
    \<Rightarrow> ForwardComposer" where
  "forward_emailComposer toLocaleString account originalEmail to_arg text_arg =
     \<lparr>fwd_from = acc_user account,
      fwd_to = to_arg,
      fwd_subj = forward_subject (email_subject originalEmail),
      fwd_text = or_empty text_arg @ forwardHeader toLocaleString originalEmail
        @ or_empty (email_textContent originalEmail),
      fwd_html = email_htmlContent originalEmail,
      fwd_references = email_messageId originalEmail\<rparr>"

text \<open>A message from \<open>a@x\<close> sent to \<open>b@x\<close> twice and to the account \<open>me@x\<close>.\<close>

definition me :: ImapAccount where
  "me = \<lparr>acc_id = ''A'', acc_user = ''me@x'', acc_password = ''pw'', acc_host = ''mail.x'',
          acc_port = 993, acc_tls = True, acc_authTimeout = None, acc_connTimeout = None,
          acc_keepalive = None\<rparr>"

definition twice_to_b :: EmailContent where
  "twice_to_b =
     \<lparr>email_uid = 2, email_date = Date 0, email_from = ''a@x'',
      email_to = [''b@x'', ''me@x'', ''b@x''], email_subject = ''Re: hello'',
      email_messageId = ''<m2@x>'', email_inReplyTo = None,
      email_textContent = Some ''hello'', email_htmlContent = None\<rparr>"

section \<open>The session pool and the mailbox operations: \<open>ImapService\<close>\<close>

subsection \<open>The session library\<close>

text \<open>
  The service drives sessions of the \<open>node-imap\<close> library, whose code is not part of the
  repository. The library is a parameter here: a record of its primitives, each a function
  on the state \<open>'w\<close> of everything outside the service (the sessions and the servers behind
  them). \<open>'c\<close> is a session object, \<open>'e\<close> an error object of the library. A primitive that
  takes a callback \<open>(err) => ...\<close> returns the error it would pass (\<open>None\<close> for a falsy
  \<open>err\<close>) and the new outside state; an exception thrown inside a promise's executor
  rejects the promise, so it is an error result too. Every \<open>await\<close> of the source is
  taken to settle.
\<close>

record ImapConfig =
  cfg_user :: string
  cfg_password :: string
  cfg_host :: string
  cfg_port :: int
  cfg_tls :: bool
  cfg_authTimeout :: int
  cfg_connTimeout :: int
  cfg_keepalive :: bool

text \<open>\<open>uid: number | number[]\<close>.\<close>

datatype uid_arg = Uid int | Uids "int list"

record ('c, 'w, 'e) imap_lib =
  lib_connect :: "ImapConfig \<Rightarrow> 'w \<Rightarrow> ('e + 'c) \<times> 'w"
  lib_end :: "'c \<Rightarrow> 'w \<Rightarrow> 'w"
  lib_openBox :: "'c \<Rightarrow> string \<Rightarrow> bool \<Rightarrow> 'w \<Rightarrow> 'e option \<times> 'w"
  lib_addFlags :: "'c \<Rightarrow> uid_arg \<Rightarrow> string \<Rightarrow> 'w \<Rightarrow> 'e option \<times> 'w"
  lib_delFlags :: "'c \<Rightarrow> uid_arg \<Rightarrow> string \<Rightarrow> 'w \<Rightarrow> 'e option \<times> 'w"
  lib_expunge :: "'c \<Rightarrow> 'w \<Rightarrow> 'e option \<times> 'w"
  lib_move :: "'c \<Rightarrow> uid_arg \<Rightarrow> string \<Rightarrow> 'w \<Rightarrow> 'e option \<times> 'w"

text \<open>
  What a call can fail with: an \<open>Error\<close> this code constructs itself (\<open>new Error(msg)\<close>),
  or an error object of the library, handed on as it came (\<open>reject(err)\<close>).
\<close>

datatype 'e error = Error string | LibError 'e

text \<open>
  The service's own state is the map \<open>activeConnections\<close>; \<open>world\<close> is the state outside.
\<close>

record ('c, 'w) state =
  activeConnections :: "string \<rightharpoonup> 'c"
  world :: 'w

text \<open>The flag names \<open>'\\Seen'\<close> and \<open>'\\Deleted'\<close>: a backslash and the word.\<close>

definition flag_Seen :: string where
  "flag_Seen = CHR 0x5C # ''Seen''"

definition flag_Deleted :: string where
  "flag_Deleted = CHR 0x5C # ''Deleted''"

subsection \<open>\<open>connect\<close>, \<open>disconnect\<close>, \<open>getConnection\<close>, \<open>selectFolder\<close>\<close>

text \<open>\<open>account.authTimeout || 3000\<close>: \<open>undefined\<close> and \<open>0\<close> are falsy.\<close>

definition or_default :: "int option \<Rightarrow> int \<Rightarrow> int" where
  "or_default v d = (case v of None \<Rightarrow> d | Some n \<Rightarrow> if n = 0 then d else n)"

definition imap_config :: "ImapAccount \<Rightarrow> ImapConfig" where
  "imap_config account =
     \<lparr>cfg_user = acc_user account,
      cfg_password = acc_password account,
      cfg_host = acc_host account,
      cfg_port = acc_port account,
      cfg_tls = acc_tls account,
      cfg_authTimeout = or_default (acc_authTimeout account) 3000,
      cfg_connTimeout = or_default (acc_connTimeout account) 10000,
      cfg_keepalive = (acc_keepalive account \<noteq> Some False)\<rparr>"

text \<open>
  \<open>lib_connect\<close> is \<open>new Imap(config)\<close>, \<open>imap.connect()\<close> and the first of the events
  \<open>'ready'\<close> and \<open>'error'\<close>.
\<close>

definition connect ::
  "('c, 'w, 'e) imap_lib \<Rightarrow> ImapAccount \<Rightarrow> ('c, 'w) state \<Rightarrow> ('e error + unit) \<times> ('c, 'w) state" where
  "connect lib account st =
     (if activeConnections st (acc_id account) \<noteq> None then (Inr (), st)
      else
        (case lib_connect lib (imap_config account) (world st) of
           (Inr imap, w) \<Rightarrow>
             (Inr (),
              st\<lparr>activeConnections := (activeConnections st)(acc_id account \<mapsto> imap),
                 world := w\<rparr>)
         | (Inl err, w) \<Rightarrow> (Inl (LibError err), st\<lparr>world := w\<rparr>)))"

definition disconnect ::
  "('c, 'w, 'e) imap_lib \<Rightarrow> string \<Rightarrow> ('c, 'w) state \<Rightarrow> ('e error + unit) \<times> ('c, 'w) state" where
  "disconnect lib accountId st =
     (case activeConnections st accountId of
        Some connection \<Rightarrow>
          (Inr (),
           st\<lparr>activeConnections := (activeConnections st)(accountId := None),
              world := lib_end lib connection (world st)\<rparr>)
      | None \<Rightarrow> (Inr (), st))"

definition getConnection :: "('c, 'w) state \<Rightarrow> string \<Rightarrow> 'e error + 'c" where
  "getConnection st accountId =
     (case activeConnections st accountId of
        None \<Rightarrow> Inl (Error (''No active connection for account '' @ accountId))
      | Some connection \<Rightarrow> Inr connection)"

text \<open>
  \<open>connection.openBox(folderName, false, ...)\<close>. The box the promise resolves with is
  dropped by every caller below, and is not modelled.
\<close>

definition selectFolder ::
  "('c, 'w, 'e) imap_lib \<Rightarrow> string \<Rightarrow> string \<Rightarrow> ('c, 'w) state
    \<Rightarrow> ('e error + unit) \<times> ('c, 'w) state" where
  "selectFolder lib accountId folderName st =
     (case getConnection st accountId of
        Inl err \<Rightarrow> (Inl err, st)
      | Inr connection \<Rightarrow>
          (case lib_openBox lib connection folderName False (world st) of
             (Some err, w) \<Rightarrow> (Inl (LibError err), st\<lparr>world := w\<rparr>)
           | (None, w) \<Rightarrow> (Inr (), st\<lparr>world := w\<rparr>)))"

subsection \<open>\<open>markAsRead\<close>, \<open>markAsUnread\<close>, \<open>deleteEmail\<close>, \<open>moveEmail\<close>\<close>

definition markAsRead ::
  "('c, 'w, 'e) imap_lib \<Rightarrow> string \<Rightarrow> string \<Rightarrow> uid_arg \<Rightarrow> ('c, 'w) state
    \<Rightarrow> ('e error + unit) \<times> ('c, 'w) state" where
  "markAsRead lib accountId folderName uid st =
     (case selectFolder lib accountId folderName st of
        (Inl err, st1) \<Rightarrow> (Inl err, st1)
      | (Inr _, st1) \<Rightarrow>
          (case getConnection st1 accountId of
             Inl err \<Rightarrow> (Inl err, st1)
           | Inr connection \<Rightarrow>
               (case lib_addFlags lib connection uid flag_Seen (world st1) of
                  (Some err, w) \<Rightarrow> (Inl (LibError err), st1\<lparr>world := w\<rparr>)
                | (None, w) \<Rightarrow> (Inr (), st1\<lparr>world := w\<rparr>))))"

definition markAsUnread ::
  "('c, 'w, 'e) imap_lib \<Rightarrow> string \<Rightarrow> string \<Rightarrow> uid_arg \<Rightarrow> ('c, 'w) state
    \<Rightarrow> ('e error + unit) \<times> ('c, 'w) state" where
  "markAsUnread lib accountId folderName uid st =
     (case selectFolder lib accountId folderName st of
        (Inl err, st1) \<Rightarrow> (Inl err, st1)
      | (Inr _, st1) \<Rightarrow>
          (case getConnection st1 accountId of
             Inl err \<Rightarrow> (Inl err, st1)
           | Inr connection \<Rightarrow>
               (case lib_delFlags lib connection uid flag_Seen (world st1) of
                  (Some err, w) \<Rightarrow> (Inl (LibError err), st1\<lparr>world := w\<rparr>)
                | (None, w) \<Rightarrow> (Inr (), st1\<lparr>world := w\<rparr>))))"

text \<open>
  \<open>addFlags(uid, '\\Deleted', ...)\<close>; on an error \<open>reject(err); return\<close>; otherwise
  \<open>connection.expunge(...)\<close>, whose error rejects and whose success resolves.
\<close>

definition deleteEmail ::
  "('c, 'w, 'e) imap_lib \<Rightarrow> string \<Rightarrow> string \<Rightarrow> uid_arg \<Rightarrow> ('c, 'w) state
    \<Rightarrow> ('e error + unit) \<times> ('c, 'w) state" where
  "deleteEmail lib accountId folderName uid st =
     (case selectFolder lib accountId folderName st of
        (Inl err, st1) \<Rightarrow> (Inl err, st1)
      | (Inr _, st1) \<Rightarrow>
          (case getConnection st1 accountId of
             Inl err \<Rightarrow> (Inl err, st1)
           | Inr connection \<Rightarrow>
               (case lib_addFlags lib connection uid flag_Deleted (world st1) of
                  (Some err, w) \<Rightarrow> (Inl (LibError err), st1\<lparr>world := w\<rparr>)
                | (None, w) \<Rightarrow>
                    (case lib_expunge lib connection w of
                       (Some err, w') \<Rightarrow> (Inl (LibError err), st1\<lparr>world := w'\<rparr>)
                     | (None, w') \<Rightarrow> (Inr (), st1\<lparr>world := w'\<rparr>)))))"

definition moveEmail ::
  "('c, 'w, 'e) imap_lib \<Rightarrow> string \<Rightarrow> string \<Rightarrow> string \<Rightarrow> uid_arg \<Rightarrow> ('c, 'w) state
    \<Rightarrow> ('e error + unit) \<times> ('c, 'w) state" where
  "moveEmail lib accountId sourceFolder destinationFolder uid st =
     (case selectFolder lib accountId sourceFolder st of
        (Inl err, st1) \<Rightarrow> (Inl err, st1)
      | (Inr _, st1) \<Rightarrow>
          (case getConnection st1 accountId of
             Inl err \<Rightarrow> (Inl err, st1)
           | Inr connection \<Rightarrow>
               (case lib_move lib connection uid destinationFolder (world st1) of
                  (Some err, w) \<Rightarrow> (Inl (LibError err), st1\<lparr>world := w\<rparr>)
                | (None, w) \<Rightarrow> (Inr (), st1\<lparr>world := w\<rparr>))))"

section \<open>The mark, delete and move tools\<close>

text \<open>
  The tool schema gives \<open>uid\<close> as an optional number and \<open>uids\<close> as an optional array of
  numbers. \<open>const uidToProcess = uids || uid\<close>: an array is truthy, the empty one too, so
  \<open>uids\<close> is taken whenever it is there; where it is \<open>undefined\<close> the value is \<open>uid\<close>,
  which may be \<open>undefined\<close> in turn. Uids are integers here.
\<close>

definition uidToProcess :: "int option \<Rightarrow> int list option \<Rightarrow> uid_arg option" where
  "uidToProcess uid uids =
     (case uids of
        Some xs \<Rightarrow> Some (Uids xs)
      | None \<Rightarrow> (case uid of Some n \<Rightarrow> Some (Uid n) | None \<Rightarrow> None))"

text \<open>A number inside a template literal: its decimal digits.\<close>

fun show_nat :: "nat \<Rightarrow> string" where
  "show_nat n =
     (if n < 10 then [''0123456789'' ! n]
      else show_nat (n div 10) @ [''0123456789'' ! (n mod 10)])"

declare show_nat.simps [simp del]

definition show_int :: "int \<Rightarrow> string" where
  "show_int i = (if i < 0 then ''-'' @ show_nat (nat (- i)) else show_nat (nat i))"

text \<open>The object each tool serialises into its reply: \<open>{success: true, message}\<close>.\<close>

record ToolResponse =
  success :: bool
  message :: string

text \<open>
  \<open>Array.isArray(uidToProcess) ? `${uidToProcess.length} emails <done>`
    : `Email ${uidToProcess} <done>`\<close>.
\<close>

definition done_message :: "uid_arg \<Rightarrow> string \<Rightarrow> string" where
  "done_message uidToProcess_v done_text =
     (case uidToProcess_v of
        Uids xs \<Rightarrow> show_nat (length xs) @ '' emails '' @ done_text
      | Uid n \<Rightarrow> ''Email '' @ show_int n @ '' '' @ done_text)"

definition required_message :: string where
  "required_message = ''Either uid or uids parameter is required''"

definition imap_mark_as_read ::
  "('c, 'w, 'e) imap_lib \<Rightarrow> string \<Rightarrow> string \<Rightarrow> int option \<Rightarrow> int list option \<Rightarrow> ('c, 'w) state
    \<Rightarrow> ('e error + ToolResponse) \<times> ('c, 'w) state" where
  "imap_mark_as_read lib accountId folder_arg uid uids st =
     (case uidToProcess uid uids of
        None \<Rightarrow> (Inl (Error required_message), st)
      | Some u \<Rightarrow>
          (case markAsRead lib accountId folder_arg u st of
             (Inl err, st1) \<Rightarrow> (Inl err, st1)
           | (Inr _, st1) \<Rightarrow>
               (Inr \<lparr>success = True, message = done_message u ''marked as read''\<rparr>, st1)))"

definition imap_mark_as_unread ::
  "('c, 'w, 'e) imap_lib \<Rightarrow> string \<Rightarrow> string \<Rightarrow> int option \<Rightarrow> int list option \<Rightarrow> ('c, 'w) state
    \<Rightarrow> ('e error + ToolResponse) \<times> ('c, 'w) state" where
  "imap_mark_as_unread lib accountId folder_arg uid uids st =
     (case uidToProcess uid uids of
        None \<Rightarrow> (Inl (Error required_message), st)
      | Some u \<Rightarrow>
          (case markAsUnread lib accountId folder_arg u st of
             (Inl err, st1) \<Rightarrow> (Inl err, st1)
           | (Inr _, st1) \<Rightarrow>
               (Inr \<lparr>success = True, message = done_message u ''marked as unread''\<rparr>, st1)))"

definition imap_delete_email ::
  "('c, 'w, 'e) imap_lib \<Rightarrow> string \<Rightarrow> string \<Rightarrow> int option \<Rightarrow> int list option \<Rightarrow> ('c, 'w) state
    \<Rightarrow> ('e error + ToolResponse) \<times> ('c, 'w) state" where
  "imap_delete_email lib accountId folder_arg uid uids st =
     (case uidToProcess uid uids of
        None \<Rightarrow> (Inl (Error required_message), st)
      | Some u \<Rightarrow>
          (case deleteEmail lib accountId folder_arg u st of
             (Inl err, st1) \<Rightarrow> (Inl err, st1)
           | (Inr _, st1) \<Rightarrow>
               (Inr \<lparr>success = True, message = done_message u ''deleted''\<rparr>, st1)))"

text \<open>
  \<open>`... moved from '${sourceFolder}' to '${destinationFolder}'`\<close>; \<open>CHR 0x27\<close> is the
  single quote.
\<close>

definition imap_move_email ::
  "('c, 'w, 'e) imap_lib \<Rightarrow> string \<Rightarrow> string \<Rightarrow> string \<Rightarrow> int option \<Rightarrow> int list option
    \<Rightarrow> ('c, 'w) state \<Rightarrow> ('e error + ToolResponse) \<times> ('c, 'w) state" where
  "imap_move_email lib accountId sourceFolder destinationFolder uid uids st =
     (case uidToProcess uid uids of
        None \<Rightarrow> (Inl (Error required_message), st)
      | Some u \<Rightarrow>
          (case moveEmail lib accountId sourceFolder destinationFolder u st of
             (Inl err, st1) \<Rightarrow> (Inl err, st1)
           | (Inr _, st1) \<Rightarrow>
               (Inr \<lparr>success = True,
                     message = done_message u
                       (''moved from '' @ [CHR 0x27] @ sourceFolder @ [CHR 0x27]
                        @ '' to '' @ [CHR 0x27] @ destinationFolder @ [CHR 0x27])\<rparr>,
                st1)))"

section \<open>A session library to run the service on\<close>

text \<open>
  A small mail server in memory, as one instance of the library parameter, for running the
  operations above on concrete inputs. A folder is a list of messages, each a uid and its
  flags; a session is a number. It follows RFC 3501 where the claims look: a uid that is
  not in the selected folder is passed over without an error (section 6.4.8), and a store
  or an expunge needs a selected folder. \<open>srv_expunge_error\<close> makes every expunge fail
  with the given error; \<open>srv_log\<close> keeps every command the server received.
\<close>

datatype command =
  CmdConnect string
  | CmdEnd nat
  | CmdOpenBox nat string
  | CmdAddFlags nat "int list" string
  | CmdDelFlags nat "int list" string
  | CmdExpunge nat
  | CmdMove nat "int list" string

record server =
  srv_folders :: "(string \<times> (int \<times> string list) list) list"
  srv_selected :: "(nat \<times> string) list"
  srv_sessions :: nat
  srv_expunge_error :: "string option"
  srv_log :: "command list"

fun uid_list :: "uid_arg \<Rightarrow> int list" where
  "uid_list (Uid n) = [n]"
| "uid_list (Uids xs) = xs"

definition logged :: "command \<Rightarrow> server \<Rightarrow> server" where
  "logged cmd s = s\<lparr>srv_log := srv_log s @ [cmd]\<rparr>"

definition srv_connect :: "ImapConfig \<Rightarrow> server \<Rightarrow> (string + nat) \<times> server" where
  "srv_connect config s =
     (Inr (srv_sessions s),
      logged (CmdConnect (cfg_user config)) (s\<lparr>srv_sessions := Suc (srv_sessions s)\<rparr>))"

definition srv_end :: "nat \<Rightarrow> server \<Rightarrow> server" where
  "srv_end c s =
     logged (CmdEnd c) (s\<lparr>srv_selected := filter (\<lambda>entry. fst entry \<noteq> c) (srv_selected s)\<rparr>)"

definition srv_openBox :: "nat \<Rightarrow> string \<Rightarrow> bool \<Rightarrow> server \<Rightarrow> string option \<times> server" where
  "srv_openBox c name readOnly s =
     (if map_of (srv_folders s) name = None
      then (Some ''Mailbox does not exist'', logged (CmdOpenBox c name) s)
      else (None, logged (CmdOpenBox c name) (s\<lparr>srv_selected := (c, name) # srv_selected s\<rparr>)))"

text \<open>Applying a change to the messages of the folder a session has selected.\<close>

definition in_selected ::
  "((int \<times> string list) list \<Rightarrow> (int \<times> string list) list) \<Rightarrow> nat \<Rightarrow> server
    \<Rightarrow> string option \<times> server" where
  "in_selected change c s =
     (case map_of (srv_selected s) c of
        None \<Rightarrow> (Some ''No mailbox is currently selected'', s)
      | Some f \<Rightarrow>
          (None,
           s\<lparr>srv_folders :=
               map (\<lambda>entry. if fst entry = f then (fst entry, change (snd entry)) else entry)
                 (srv_folders s)\<rparr>))"

definition add_flag :: "string \<Rightarrow> int list \<Rightarrow> (int \<times> string list) list \<Rightarrow> (int \<times> string list) list" where
  "add_flag flag uids msgs =
     map (\<lambda>m. if fst m \<in> set uids then (fst m, List.insert flag (snd m)) else m) msgs"

definition del_flag :: "string \<Rightarrow> int list \<Rightarrow> (int \<times> string list) list \<Rightarrow> (int \<times> string list) list" where
  "del_flag flag uids msgs =
     map (\<lambda>m. if fst m \<in> set uids then (fst m, removeAll flag (snd m)) else m) msgs"

definition srv_addFlags :: "nat \<Rightarrow> uid_arg \<Rightarrow> string \<Rightarrow> server \<Rightarrow> string option \<times> server" where
  "srv_addFlags c uid flag s =
     in_selected (add_flag flag (uid_list uid)) c (logged (CmdAddFlags c (uid_list uid) flag) s)"

definition srv_delFlags :: "nat \<Rightarrow> uid_arg \<Rightarrow> string \<Rightarrow> server \<Rightarrow> string option \<times> server" where
  "srv_delFlags c uid flag s =
     in_selected (del_flag flag (uid_list uid)) c (logged (CmdDelFlags c (uid_list uid) flag) s)"

definition srv_expunge :: "nat \<Rightarrow> server \<Rightarrow> string option \<times> server" where
  "srv_expunge c s =
     (case srv_expunge_error s of
        Some err \<Rightarrow> (Some err, logged (CmdExpunge c) s)
      | None \<Rightarrow>
          in_selected (filter (\<lambda>m. flag_Deleted \<notin> set (snd m))) c (logged (CmdExpunge c) s))"

definition srv_move :: "nat \<Rightarrow> uid_arg \<Rightarrow> string \<Rightarrow> server \<Rightarrow> string option \<times> server" where
  "srv_move c uid dest s =
     (case (map_of (srv_selected s) c, map_of (srv_folders s) dest) of
        (Some f, Some _) \<Rightarrow>
          (None,
           logged (CmdMove c (uid_list uid) dest)
             (s\<lparr>srv_folders :=
                 map (\<lambda>entry.
                     if fst entry = f
                     then (fst entry, filter (\<lambda>m. fst m \<notin> set (uid_list uid)) (snd entry))
                     else if fst entry = dest
                     then (fst entry,
                           snd entry
                           @ filter (\<lambda>m. fst m \<in> set (uid_list uid))
                               (case map_of (srv_folders s) f of None \<Rightarrow> [] | Some msgs \<Rightarrow> msgs))
                     else entry)
                   (srv_folders s)\<rparr>))
      | _ \<Rightarrow> (Some ''Move failed'', logged (CmdMove c (uid_list uid) dest) s))"

definition srv :: "(nat, server, string) imap_lib" where
  "srv =
     \<lparr>lib_connect = srv_connect, lib_end = srv_end, lib_openBox = srv_openBox,
      lib_addFlags = srv_addFlags, lib_delFlags = srv_delFlags, lib_expunge = srv_expunge,
      lib_move = srv_move\<rparr>"

text \<open>
  The scenario of the specification: account \<open>A\<close>, folder \<open>INBOX\<close> with the uids 1, 2 and
  3, no message seen. \<open>fresh\<close> is the service before any call, \<open>connected\<close> the service
  once \<open>A\<close> has a session, \<open>connected_expunge_fails\<close> the same in front of a server
  whose expunge fails.
\<close>

definition inbox :: server where
  "inbox =
     \<lparr>srv_folders = [(''INBOX'', [(1, []), (2, []), (3, [])])],
      srv_selected = [], srv_sessions = 0, srv_expunge_error = None, srv_log = []\<rparr>"

definition fresh :: "(nat, server) state" where
  "fresh = \<lparr>activeConnections = Map.empty, world = inbox\<rparr>"

definition connected :: "(nat, server) state" where
  "connected =
     \<lparr>activeConnections = [''A'' \<mapsto> 0],
      world = inbox\<lparr>srv_sessions := 1, srv_log := [CmdConnect ''me@x'']\<rparr>\<rparr>"

definition connected_expunge_fails :: "(nat, server) state" where
  "connected_expunge_fails =
     \<lparr>activeConnections = [''A'' \<mapsto> 0],
      world = inbox\<lparr>srv_sessions := 1, srv_expunge_error := Some ''EXPUNGE failed'',
                    srv_log := [CmdConnect ''me@x'']\<rparr>\<rparr>"

text \<open>Criteria with an empty sender and a seen filter; with a sender and an unseen filter.\<close>

definition empty_from_seen :: SearchCriteria where
  "empty_from_seen = no_criteria\<lparr>c_from := Some [], c_seen := Some True\<rparr>"

definition from_alice_unseen :: SearchCriteria where
  "from_alice_unseen = no_criteria\<lparr>c_from := Some ''alice'', c_seen := Some False\<rparr>"

section \<open>Notions the proofs use\<close>

text \<open>
  \<open>ranked_below r xs\<close>: the fields of the terms of \<open>xs\<close> come in the order of the source,
  none twice, and all before position \<open>r\<close>.
\<close>

definition ranked_below :: "nat \<Rightarrow> search_term list \<Rightarrow> bool" where
  "ranked_below r xs =
     (sorted_wrt (<) (map term_rank xs) \<and> list_all (\<lambda>t. term_rank t < r) xs)"

text \<open>The array after the ten guarded pushes, before the final test of its length.\<close>

definition pushed :: "SearchCriteria \<Rightarrow> search_term list" where
  "pushed criteria =
     push_flag ''DRAFT'' ''UNDRAFT'' (c_draft criteria)
      (push_flag ''ANSWERED'' ''UNANSWERED'' (c_answered criteria)
       (push_flag ''FLAGGED'' ''UNFLAGGED'' (c_flagged criteria)
        (push_flag ''SEEN'' ''UNSEEN'' (c_seen criteria)
         (push_date ''BEFORE'' (c_before criteria)
          (push_date ''SINCE'' (c_since criteria)
           (push_str ''BODY'' (c_body criteria)
            (push_str ''SUBJECT'' (c_subject criteria)
             (push_str ''TO'' (c_to criteria)
              (push_str ''FROM'' (c_from criteria) [])))))))))"

text \<open>
  What one field gives to the translation, by the words of the specification: the one term
  of a predicate that passes its guard (its key, and its value or its polarity), and
  nothing for any other. \<open>field_terms\<close> lists this for the ten fields in the order of
  the source, \<open>field_present\<close> says for each field whether its predicate passes, and
  \<open>terms_of_rank r\<close> picks the terms of field number \<open>r\<close> out of a translation.
\<close>

definition str_term :: "string \<Rightarrow> string option \<Rightarrow> search_term list" where
  "str_term key v = (case v of None \<Rightarrow> [] | Some s \<Rightarrow> if s = [] then [] else [StrPair key s])"

definition date_term :: "string \<Rightarrow> js_date option \<Rightarrow> search_term list" where
  "date_term key v = (case v of None \<Rightarrow> [] | Some d \<Rightarrow> [DatePair key d])"

definition flag_term :: "string \<Rightarrow> string \<Rightarrow> bool option \<Rightarrow> search_term list" where
  "flag_term pos neg v = (case v of None \<Rightarrow> [] | Some b \<Rightarrow> [Keyword (if b then pos else neg)])"

definition field_terms :: "SearchCriteria \<Rightarrow> search_term list list" where
  "field_terms c =
     [str_term ''FROM'' (c_from c), str_term ''TO'' (c_to c),
      str_term ''SUBJECT'' (c_subject c), str_term ''BODY'' (c_body c),
      date_term ''SINCE'' (c_since c), date_term ''BEFORE'' (c_before c),
      flag_term ''SEEN'' ''UNSEEN'' (c_seen c), flag_term ''FLAGGED'' ''UNFLAGGED'' (c_flagged c),
      flag_term ''ANSWERED'' ''UNANSWERED'' (c_answered c),
      flag_term ''DRAFT'' ''UNDRAFT'' (c_draft c)]"

definition field_present :: "SearchCriteria \<Rightarrow> nat list" where
  "field_present c =
     [present_str (c_from c), present_str (c_to c), present_str (c_subject c),
      present_str (c_body c), present (c_since c), present (c_before c),
      present (c_seen c), present (c_flagged c), present (c_answered c), present (c_draft c)]"

definition terms_of_rank :: "nat \<Rightarrow> search_term list \<Rightarrow> search_term list" where
  "terms_of_rank r xs = filter (\<lambda>t. term_rank t = r) xs"

section \<open>Properties of the criteria translator\<close>

lemma length_push_str: "length (push_str k v xs) = length xs + present_str v"
  by (simp add: push_str_def present_str_def split: option.splits)

lemma length_push_date: "length (push_date k v xs) = length xs + present v"
  by (simp add: push_date_def present_def split: option.splits)

lemma length_push_flag: "length (push_flag p n v xs) = length xs + present v"
  by (simp add: push_flag_def present_def split: option.splits)

lemma ranked_below_Nil: "ranked_below r []"
  by (simp add: ranked_below_def)

lemma ranked_below_snoc:
  "ranked_below r xs \<Longrightarrow> term_rank t = r \<Longrightarrow> r < r' \<Longrightarrow> ranked_below r' (xs @ [t])"
  by (auto simp: ranked_below_def sorted_wrt_append list_all_iff)

lemma ranked_below_mono: "ranked_below r xs \<Longrightarrow> r \<le> r' \<Longrightarrow> ranked_below r' xs"
  by (auto simp: ranked_below_def list_all_iff)

lemma push_str_ranked:
  "ranked_below r xs \<Longrightarrow> key_rank k = r \<Longrightarrow> r < r' \<Longrightarrow> ranked_below r' (push_str k v xs)"
  by (auto simp: push_str_def split: option.splits
      intro: ranked_below_snoc ranked_below_mono)

lemma push_date_ranked:
  "ranked_below r xs \<Longrightarrow> key_rank k = r \<Longrightarrow> r < r' \<Longrightarrow> ranked_below r' (push_date k v xs)"
  by (auto simp: push_date_def split: option.splits
      intro: ranked_below_snoc ranked_below_mono)

lemma push_flag_ranked:
  "ranked_below r xs \<Longrightarrow> key_rank p = r \<Longrightarrow> key_rank n = r \<Longrightarrow> r < r'
    \<Longrightarrow> ranked_below r' (push_flag p n v xs)"
  by (auto simp: push_flag_def split: option.splits
      intro: ranked_below_snoc ranked_below_mono)

lemma buildSearchCriteria_pushed:
  "buildSearchCriteria c = (if length (pushed c) > 0 then pushed c else [Keyword ''ALL''])"
  by (simp add: buildSearchCriteria_def pushed_def Let_def)

lemma length_pushed: "length (pushed c) = effective_count c"
  by (simp add: pushed_def effective_count_def length_push_str length_push_date
      length_push_flag)

lemma pushed_ranked: "ranked_below 10 (pushed c)"
proof -
  have "ranked_below 0 []"
    by (rule ranked_below_Nil)
  then have "ranked_below 1 (push_str ''FROM'' (c_from c) [])"
    by (rule push_str_ranked) (simp_all add: key_rank_def)
  then have "ranked_below 2 (push_str ''TO'' (c_to c) (push_str ''FROM'' (c_from c) []))"
    by (rule push_str_ranked) (simp_all add: key_rank_def)
  then have "ranked_below 3 (push_str ''SUBJECT'' (c_subject c)
      (push_str ''TO'' (c_to c) (push_str ''FROM'' (c_from c) [])))"
    by (rule push_str_ranked) (simp_all add: key_rank_def)
  then have "ranked_below 4 (push_str ''BODY'' (c_body c) (push_str ''SUBJECT'' (c_subject c)
      (push_str ''TO'' (c_to c) (push_str ''FROM'' (c_from c) []))))"
    by (rule push_str_ranked) (simp_all add: key_rank_def)
  then have "ranked_below 5 (push_date ''SINCE'' (c_since c)
      (push_str ''BODY'' (c_body c) (push_str ''SUBJECT'' (c_subject c)
      (push_str ''TO'' (c_to c) (push_str ''FROM'' (c_from c) [])))))"
    by (rule push_date_ranked) (simp_all add: key_rank_def)
  then have "ranked_below 6 (push_date ''BEFORE'' (c_before c)
      (push_date ''SINCE'' (c_since c)
      (push_str ''BODY'' (c_body c) (push_str ''SUBJECT'' (c_subject c)
      (push_str ''TO'' (c_to c) (push_str ''FROM'' (c_from c) []))))))"
    by (rule push_date_ranked) (simp_all add: key_rank_def)
  then have "ranked_below 7 (push_flag ''SEEN'' ''UNSEEN'' (c_seen c)
      (push_date ''BEFORE'' (c_before c) (push_date ''SINCE'' (c_since c)
      (push_str ''BODY'' (c_body c) (push_str ''SUBJECT'' (c_subject c)
      (push_str ''TO'' (c_to c) (push_str ''FROM'' (c_from c) [])))))))"
    by (rule push_flag_ranked) (simp_all add: key_rank_def)
  then have "ranked_below 8 (push_flag ''FLAGGED'' ''UNFLAGGED'' (c_flagged c)
      (push_flag ''SEEN'' ''UNSEEN'' (c_seen c)
      (push_date ''BEFORE'' (c_before c) (push_date ''SINCE'' (c_since c)
      (push_str ''BODY'' (c_body c) (push_str ''SUBJECT'' (c_subject c)
      (push_str ''TO'' (c_to c) (push_str ''FROM'' (c_from c) []))))))))"
    by (rule push_flag_ranked) (simp_all add: key_rank_def)
  then have "ranked_below 9 (push_flag ''ANSWERED'' ''UNANSWERED'' (c_answered c)
      (push_flag ''FLAGGED'' ''UNFLAGGED'' (c_flagged c)
      (push_flag ''SEEN'' ''UNSEEN'' (c_seen c)
      (push_date ''BEFORE'' (c_before c) (push_date ''SINCE'' (c_since c)
      (push_str ''BODY'' (c_body c) (push_str ''SUBJECT'' (c_subject c)
      (push_str ''TO'' (c_to c) (push_str ''FROM'' (c_from c) [])))))))))"
    by (rule push_flag_ranked) (simp_all add: key_rank_def)
  then show ?thesis
    unfolding pushed_def
    by (rule push_flag_ranked) (simp_all add: key_rank_def)
qed

lemma push_str_append: "push_str k v xs = xs @ str_term k v"
  by (simp add: push_str_def str_term_def split: option.splits)

lemma push_date_append: "push_date k v xs = xs @ date_term k v"
  by (simp add: push_date_def date_term_def split: option.splits)

lemma push_flag_append: "push_flag p n v xs = xs @ flag_term p n v"
  by (simp add: push_flag_def flag_term_def split: option.splits)

lemma pushed_concat: "pushed c = concat (field_terms c)"
  by (simp add: pushed_def field_terms_def push_str_append push_date_append push_flag_append)

lemma key_rank_vals:
  "key_rank ''FROM'' = 0" "key_rank ''TO'' = 1" "key_rank ''SUBJECT'' = 2" "key_rank ''BODY'' = 3"
  "key_rank ''SINCE'' = 4" "key_rank ''BEFORE'' = 5" "key_rank ''SEEN'' = 6" "key_rank ''UNSEEN'' = 6"
  "key_rank ''FLAGGED'' = 7" "key_rank ''UNFLAGGED'' = 7" "key_rank ''ANSWERED'' = 8"
  "key_rank ''UNANSWERED'' = 8" "key_rank ''DRAFT'' = 9" "key_rank ''UNDRAFT'' = 9"
  by (simp_all add: key_rank_def)

lemma rank_str_term:
  "terms_of_rank r (str_term k v) = (if key_rank k = r then str_term k v else [])"
  by (simp add: terms_of_rank_def str_term_def split: option.splits)

lemma rank_date_term:
  "terms_of_rank r (date_term k v) = (if key_rank k = r then date_term k v else [])"
  by (simp add: terms_of_rank_def date_term_def split: option.splits)

lemma rank_flag_term:
  "key_rank n = key_rank p \<Longrightarrow>
   terms_of_rank r (flag_term p n v) = (if key_rank p = r then flag_term p n v else [])"
  by (simp add: terms_of_rank_def flag_term_def split: option.splits)

lemma terms_of_rank_append:
  "terms_of_rank r (xs @ ys) = terms_of_rank r xs @ terms_of_rank r ys"
  by (simp add: terms_of_rank_def)

lemma terms_of_rank_Nil: "terms_of_rank r [] = []"
  by (simp add: terms_of_rank_def)

lemma length_str_term: "length (str_term k v) = present_str v"
  by (simp add: str_term_def present_str_def split: option.splits)

lemma length_date_term: "length (date_term k v) = present v"
  by (simp add: date_term_def present_def split: option.splits)

lemma length_flag_term: "length (flag_term p n v) = present v"
  by (simp add: flag_term_def present_def split: option.splits)

lemma pushed_by_rank:
  "map (\<lambda>r. terms_of_rank r (pushed c)) [0, 1, 2, 3, 4, 5, 6, 7, 8, 9] = field_terms c"
  by (simp add: pushed_concat field_terms_def terms_of_rank_append terms_of_rank_Nil
      rank_str_term rank_date_term rank_flag_term key_rank_vals)

lemma length_field_terms: "map length (field_terms c) = field_present c"
  by (simp add: field_terms_def field_present_def length_str_term length_date_term
      length_flag_term)

text \<open>
  Claim C3. A criteria object none of whose predicates is set translates to the single
  term \<open>'ALL'\<close> and nothing else.
\<close>

theorem buildSearchCriteria_no_predicate:
  assumes "c_from c = None" "c_to c = None" "c_subject c = None" "c_body c = None"
    and "c_since c = None" "c_before c = None"
    and "c_seen c = None" "c_flagged c = None" "c_answered c = None" "c_draft c = None"
  shows "buildSearchCriteria c = [Keyword ''ALL'']"
  using assms
  by (simp add: buildSearchCriteria_def push_str_def push_date_def push_flag_def)

text \<open>Claim C3, on the criteria object \<open>{}\<close>.\<close>

theorem buildSearchCriteria_no_predicate_witness:
  "buildSearchCriteria no_criteria = [Keyword ''ALL'']"
  by (rule buildSearchCriteria_no_predicate) (simp_all add: no_criteria_def)

text \<open>
  Claim C4 as it is stated fails: \<open>{from: '', seen: true}\<close> has two predicates that are
  not unset, and translates to the one term \<open>'SEEN'\<close>, the empty string being falsy.
\<close>

theorem buildSearchCriteria_count_counterexample:
  "non_unset_count empty_from_seen = 2
   \<and> buildSearchCriteria empty_from_seen = [Keyword ''SEEN'']
   \<and> length (buildSearchCriteria empty_from_seen) \<noteq> non_unset_count empty_from_seen"
  by (simp add: empty_from_seen_def no_criteria_def non_unset_count_def present_def
      buildSearchCriteria_def push_str_def push_date_def push_flag_def)

text \<open>
  Claim C4, amended. When at least one predicate passes its guard (a substring predicate
  that is a non-empty string, a date or a tri-state that is there), the number of terms is
  the number of such predicates, and the terms stand in the order in which the source tests
  the fields: from, to, subject, body, since, before, seen, flagged, answered, draft, with
  no field twice. Each predicate that passes its guard gives exactly one term and that term
  is its own (the key of its field with its value, or the positive or negative keyword of
  its tri-state); every other field gives none: the translation is the terms of the ten
  fields one after the other, and the terms of field number \<open>r\<close> in it are those
  of that field, one or none as the field passes its guard or not.
\<close>

theorem buildSearchCriteria_count_order:
  assumes "0 < effective_count c"
  shows "length (buildSearchCriteria c) = effective_count c
    \<and> sorted_wrt (<) (map term_rank (buildSearchCriteria c))
    \<and> list_all (\<lambda>t. term_rank t < 10) (buildSearchCriteria c)
    \<and> buildSearchCriteria c = concat (field_terms c)
    \<and> map (\<lambda>r. terms_of_rank r (buildSearchCriteria c)) [0, 1, 2, 3, 4, 5, 6, 7, 8, 9]
        = field_terms c
    \<and> map length (field_terms c) = field_present c"
proof -
  from assms have run: "buildSearchCriteria c = pushed c"
    by (simp add: buildSearchCriteria_pushed length_pushed)
  from pushed_ranked [of c] have "length (buildSearchCriteria c) = effective_count c"
    and "sorted_wrt (<) (map term_rank (buildSearchCriteria c))"
    and "list_all (\<lambda>t. term_rank t < 10) (buildSearchCriteria c)"
    by (simp_all add: run length_pushed ranked_below_def)
  moreover have "buildSearchCriteria c = concat (field_terms c)"
    by (simp only: run pushed_concat)
  moreover have "map (\<lambda>r. terms_of_rank r (buildSearchCriteria c)) [0, 1, 2, 3, 4, 5, 6, 7, 8, 9]
      = field_terms c"
    by (simp only: run pushed_by_rank)
  moreover note length_field_terms [of c]
  ultimately show ?thesis by (intro conjI)
qed

text \<open>Claim C4, amended, on \<open>{from: 'alice', seen: false}\<close>.\<close>

theorem buildSearchCriteria_count_order_witness:
  "0 < effective_count from_alice_unseen
   \<and> buildSearchCriteria from_alice_unseen = [StrPair ''FROM'' ''alice'', Keyword ''UNSEEN'']
   \<and> length (buildSearchCriteria from_alice_unseen) = effective_count from_alice_unseen
   \<and> sorted_wrt (<) (map term_rank (buildSearchCriteria from_alice_unseen))
   \<and> field_present from_alice_unseen = [1, 0, 0, 0, 0, 0, 1, 0, 0, 0]
   \<and> map (\<lambda>r. terms_of_rank r (buildSearchCriteria from_alice_unseen))
        [0, 1, 2, 3, 4, 5, 6, 7, 8, 9]
      = [[StrPair ''FROM'' ''alice''], [], [], [], [], [], [Keyword ''UNSEEN''], [], [], []]"
proof -
  have pos: "0 < effective_count from_alice_unseen"
    by (simp add: from_alice_unseen_def no_criteria_def effective_count_def present_def
        present_str_def)
  have ft: "field_terms from_alice_unseen
      = [[StrPair ''FROM'' ''alice''], [], [], [], [], [], [Keyword ''UNSEEN''], [], [], []]"
    by (simp add: from_alice_unseen_def no_criteria_def field_terms_def str_term_def
        date_term_def flag_term_def)
  have fp: "field_present from_alice_unseen = [1, 0, 0, 0, 0, 0, 1, 0, 0, 0]"
    by (simp add: from_alice_unseen_def no_criteria_def field_present_def present_def
        present_str_def)
  note main = buildSearchCriteria_count_order [OF pos]
  note len = main [THEN conjunct1]
  note srt = main [THEN conjunct2, THEN conjunct1]
  note cat = main [THEN conjunct2, THEN conjunct2, THEN conjunct2, THEN conjunct1]
  note rnk = main [THEN conjunct2, THEN conjunct2, THEN conjunct2, THEN conjunct2,
      THEN conjunct1]
  have run: "buildSearchCriteria from_alice_unseen
      = [StrPair ''FROM'' ''alice'', Keyword ''UNSEEN'']"
    unfolding cat by (simp add: ft)
  have byr: "map (\<lambda>r. terms_of_rank r (buildSearchCriteria from_alice_unseen))
        [0, 1, 2, 3, 4, 5, 6, 7, 8, 9]
      = [[StrPair ''FROM'' ''alice''], [], [], [], [], [], [Keyword ''UNSEEN''], [], [], []]"
    using rnk by (simp only: ft)
  from pos run len srt fp byr show ?thesis by (intro conjI)
qed

section \<open>Properties of the folder parser\<close>

lemma parseBoxes_map:
  "parseBoxes boxes parentPath =
     map (\<lambda>(name, boxData).
        Folder (if parentPath \<noteq> [] then parentPath @ box_delimiter boxData @ name else name)
          (box_delimiter boxData)
          (case box_attribs boxData of None \<Rightarrow> [] | Some a \<Rightarrow> a)
          (map_option (\<lambda>children. parseBoxes children
              (if parentPath \<noteq> [] then parentPath @ box_delimiter boxData @ name else name))
            (box_children boxData))) boxes"
proof (induction boxes)
  case Nil
  show ?case by (simp add: parseBoxes.simps)
next
  case (Cons entry boxes)
  obtain name boxData where entry: "entry = (name, boxData)" by (cases entry)
  show ?case
    unfolding entry
    by (simp add: parseBoxes.simps(2) Let_def Cons.IH split: option.splits)
qed

lemma length_parseBoxes: "length (parseBoxes boxes parentPath) = length boxes"
  using parseBoxes_map [of boxes parentPath] by simp

lemma parseBoxes_nth:
  assumes "i < length boxes" and "boxes ! i = (leaf, b)"
  shows "parseBoxes boxes parentPath ! i =
      Folder (if parentPath \<noteq> [] then parentPath @ box_delimiter b @ leaf else leaf)
        (box_delimiter b)
        (case box_attribs b of None \<Rightarrow> [] | Some a \<Rightarrow> a)
        (map_option (\<lambda>children. parseBoxes children
            (if parentPath \<noteq> [] then parentPath @ box_delimiter b @ leaf else leaf))
          (box_children b))"
  using assms parseBoxes_map [of boxes parentPath] by simp

lemma child_name_general:
  assumes "box_at boxes (p @ [i]) = Some (leaf, b)" and "p \<noteq> []"
  shows "\<exists>parent child.
      folder_at (parseBoxes boxes parentPath) p = Some parent
    \<and> folder_at (parseBoxes boxes parentPath) (p @ [i]) = Some child
    \<and> folder_name child =
        (if folder_name parent \<noteq> [] then folder_name parent @ box_delimiter b @ leaf else leaf)
    \<and> folder_delimiter child = box_delimiter b"
  using assms
proof (induction p arbitrary: boxes parentPath)
  case Nil
  then show ?case by simp
next
  case (Cons j p)
  from Cons.prems(1) have j: "j < length boxes"
    by (cases p) (auto split: if_splits)
  obtain jname jbox where bj: "boxes ! j = (jname, jbox)" by (cases "boxes ! j")
  from Cons.prems(1) j bj obtain ch where ch: "box_children jbox = Some ch"
    and at: "box_at ch (p @ [i]) = Some (leaf, b)"
    by (cases p) (auto split: option.splits)
  let ?pname = "if parentPath \<noteq> [] then parentPath @ box_delimiter jbox @ jname else jname"
  have fj: "parseBoxes boxes parentPath ! j =
      Folder ?pname (box_delimiter jbox) (case box_attribs jbox of None \<Rightarrow> [] | Some a \<Rightarrow> a)
        (Some (parseBoxes ch ?pname))"
    using parseBoxes_nth [OF j bj, of parentPath] ch by simp
  show ?case
  proof (cases p)
    case Nil
    with at have i: "i < length ch" and chi: "ch ! i = (leaf, b)"
      by (auto split: if_splits)
    show ?thesis
      using Nil j fj i parseBoxes_nth [OF i chi, of ?pname]
      by (simp add: length_parseBoxes)
  next
    case (Cons k q)
    then have "p \<noteq> []" by simp
    from Cons.IH [OF at this, of ?pname] obtain parent child where
      "folder_at (parseBoxes ch ?pname) p = Some parent"
      "folder_at (parseBoxes ch ?pname) (p @ [i]) = Some child"
      "folder_name child =
        (if folder_name parent \<noteq> [] then folder_name parent @ box_delimiter b @ leaf else leaf)"
      "folder_delimiter child = box_delimiter b"
      by blast
    then show ?thesis
      using Cons j fj by (simp add: length_parseBoxes)
  qed
qed

text \<open>
  Claim C8 as it is stated fails: where a child box carries another delimiter than its
  parent, the child is joined by its own one. The child \<open>B\<close> (delimiter \<open>.\<close>) of \<open>A\<close>
  (delimiter \<open>/\<close>) is named \<open>A.B\<close> and not \<open>A/B\<close>.
\<close>

theorem parseBoxes_parent_delimiter_counterexample:
  "parseBoxes two_delimiters [] = [Folder ''A'' ''/'' [] (Some [Folder ''A.B'' ''.'' [] None])]
   \<and> ''A.B'' \<noteq> ''A'' @ ''/'' @ ''B''"
  by (simp add: two_delimiters_def parseBoxes.simps)

text \<open>
  Claim C8, amended. At every depth of the tree the server supplies, the folder made from a
  child box is named by the full name of its parent folder, the delimiter of the child box
  itself (which is also the delimiter the child folder records) and the child's leaf name,
  in this order; where the parent's full name is the empty string the child's name is its
  leaf name alone.
\<close>

theorem parseBoxes_child_name:
  assumes "box_at boxes (p @ [i]) = Some (leaf, b)" and "p \<noteq> []"
  shows "\<exists>parent child.
      folder_at (parseBoxes boxes []) p = Some parent
    \<and> folder_at (parseBoxes boxes []) (p @ [i]) = Some child
    \<and> folder_name child =
        (if folder_name parent \<noteq> [] then folder_name parent @ box_delimiter b @ leaf else leaf)
    \<and> folder_delimiter child = box_delimiter b"
  using assms by (rule child_name_general)

text \<open>Claim C8, amended, on the tree of \<open>A\<close> and its child \<open>B\<close>.\<close>

theorem parseBoxes_child_name_witness:
  "box_at two_delimiters ([0] @ [0]) = Some (''B'', Box ''.'' None None) \<and> [0::nat] \<noteq> []
   \<and> (\<exists>parent child.
      folder_at (parseBoxes two_delimiters []) [0] = Some parent
    \<and> folder_at (parseBoxes two_delimiters []) ([0] @ [0]) = Some child
    \<and> folder_name child = folder_name parent @ ''.'' @ ''B'')"
proof -
  have at: "box_at two_delimiters ([0] @ [0]) = Some (''B'', Box ''.'' None None)"
    by (simp add: two_delimiters_def)
  have ne: "[0::nat] \<noteq> []" by simp
  have "folder_at (parseBoxes two_delimiters []) [0]
      = Some (Folder ''A'' ''/'' [] (Some [Folder ''A.B'' ''.'' [] None]))"
    by (simp add: two_delimiters_def parseBoxes.simps)
  with parseBoxes_child_name [OF at ne] at ne show ?thesis
    by auto
qed

section \<open>Properties of the reply and forward composers\<close>

lemma startsWith_iff: "startsWith s p = (\<exists>x. s = p @ x)"
  unfolding startsWith_def
  by (metis append_eq_conv_conj append_take_drop_id)

text \<open>
  Claim C6 as it is stated fails: nothing removes duplicates. Replying to all on a message
  from \<open>a@x\<close> to \<open>b@x\<close>, \<open>me@x\<close> and \<open>b@x\<close> again addresses \<open>b@x\<close> twice.
\<close>

theorem reply_recipients_duplicates_counterexample:
  "reply_to (reply_emailComposer me twice_to_b None None True) = [''a@x'', ''b@x'', ''b@x'']
   \<and> \<not> distinct (reply_to (reply_emailComposer me twice_to_b None None True))"
  by (simp add: reply_emailComposer_def reply_recipients_def me_def twice_to_b_def)

text \<open>
  Claim C6, amended. With \<open>replyAll = false\<close> the recipient list is exactly the original
  sender. With \<open>replyAll = true\<close> it is the original sender followed by the original
  recipients that differ from the account's own address, in their order and as often as
  they occur: every original recipient but the account's own address is included, and the
  list has no duplicates exactly when those recipients have none among themselves and the
  sender is not one of them.
\<close>

theorem reply_recipients_amended:
  "reply_to (reply_emailComposer account original txt html False) = [email_from original]
   \<and> reply_to (reply_emailComposer account original txt html True)
       = email_from original # filter (\<lambda>addr. addr \<noteq> acc_user account) (email_to original)
   \<and> set (reply_to (reply_emailComposer account original txt html True))
       = insert (email_from original) (set (email_to original) - {acc_user account})
   \<and> distinct (reply_to (reply_emailComposer account original txt html True))
       = (distinct (filter (\<lambda>addr. addr \<noteq> acc_user account) (email_to original))
          \<and> email_from original
              \<notin> set (filter (\<lambda>addr. addr \<noteq> acc_user account) (email_to original)))"
  by (auto simp: reply_emailComposer_def reply_recipients_def)

text \<open>
  Claim C7. A reply to a message whose subject begins with \<open>Re: \<close> keeps the subject, and
  so does a forward of a message whose subject begins with \<open>Fwd: \<close>; every other subject
  gets the prefix, so prefixing twice is prefixing once. The test compares the first
  characters exactly: \<open>RE: x\<close>, \<open>Re:x\<close> and \<open>fwd: x\<close> do not pass it.
\<close>

theorem subject_prefix_idempotent:
  "reply_subj (reply_emailComposer account original txt html replyAll)
     = (if \<exists>x. email_subject original = ''Re: '' @ x then email_subject original
        else ''Re: '' @ email_subject original)
   \<and> fwd_subj (forward_emailComposer toLocaleString account original to_arg txt)
     = (if \<exists>x. email_subject original = ''Fwd: '' @ x then email_subject original
        else ''Fwd: '' @ email_subject original)
   \<and> reply_subject (''Re: '' @ x) = ''Re: '' @ x
   \<and> forward_subject (''Fwd: '' @ x) = ''Fwd: '' @ x
   \<and> reply_subject (reply_subject s) = reply_subject s
   \<and> forward_subject (forward_subject s) = forward_subject s
   \<and> reply_subject ''RE: x'' = ''Re: RE: x''
   \<and> reply_subject ''Re:x'' = ''Re: Re:x''
   \<and> forward_subject ''fwd: x'' = ''Fwd: fwd: x''"
  by (simp add: reply_emailComposer_def forward_emailComposer_def reply_subject_def
      forward_subject_def startsWith_iff)

section \<open>Properties of the session pool\<close>

lemmas srv_simps = srv_def srv_connect_def srv_end_def srv_openBox_def srv_addFlags_def
  srv_delFlags_def srv_expunge_def srv_move_def in_selected_def add_flag_def del_flag_def
  logged_def inbox_def

text \<open>
  Claim C5. Whatever the session library does, \<open>connect\<close> for an account whose id already
  has a session registered resolves at once and changes nothing, neither the map of
  sessions nor anything outside. So when \<open>connect\<close> has resolved, a second \<open>connect\<close> for
  the same account resolves with the state the first one left, and the id has exactly one
  session.
\<close>

theorem connect_idempotent:
  "(activeConnections st (acc_id account) \<noteq> None \<longrightarrow> connect lib account st = (Inr (), st))
   \<and> (connect lib account st = (Inr (), st1) \<longrightarrow>
        connect lib account st1 = (Inr (), st1)
        \<and> (\<exists>!imap. activeConnections st1 (acc_id account) = Some imap))"
  by (auto simp: connect_def split: prod.splits sum.splits if_splits)

text \<open>
  Claim C5, on the server in memory, which counts the sessions it has opened: after two
  calls for account \<open>A\<close> it has opened one.
\<close>

theorem connect_idempotent_witness:
  "activeConnections connected (acc_id me) \<noteq> None
   \<and> connect srv me connected = (Inr (), connected)
   \<and> connect srv me fresh = (Inr (), connected)
   \<and> (\<exists>!imap. activeConnections connected (acc_id me) = Some imap)
   \<and> srv_sessions (world (snd (connect srv me (snd (connect srv me fresh))))) = 1"
proof -
  have a: "activeConnections connected (acc_id me) \<noteq> None"
    by (simp add: connected_def me_def)
  have b: "connect srv me fresh = (Inr (), connected)"
    by (simp add: connect_def fresh_def connected_def me_def imap_config_def srv_simps)
  from connect_idempotent [of connected me srv connected] a
  have c: "connect srv me connected = (Inr (), connected)" by simp
  from connect_idempotent [of fresh me srv connected] b
  have d: "\<exists>!imap. activeConnections connected (acc_id me) = Some imap" by simp
  have e: "srv_sessions (world connected) = 1" by (simp add: connected_def inbox_def)
  from a b c d e show ?thesis by simp
qed

section \<open>Properties of the mailbox operations\<close>

text \<open>
  Claim C1, run on the scenario of the specification. Marking the uids 1, 2 and 99 as read
  in an \<open>INBOX\<close> that holds 1, 2 and 3 hands the three uids to the session in one
  \<open>addFlags\<close>; the server passes over the absent 99 without an error, so the tool reports
  success for three emails and the messages 1 and 2 are now seen. Deleting the uids 1 and
  99 likewise reports two emails deleted, and message 1 is gone. No membership of the uids
  is checked before the command, and no failure is raised after it.
\<close>

theorem markAsRead_absent_uid_reports_success:
  "fst (imap_mark_as_read srv ''A'' ''INBOX'' None (Some [1, 2, 99]) connected)
     = Inr \<lparr>success = True, message = ''3 emails marked as read''\<rparr>
   \<and> srv_folders (world (snd (imap_mark_as_read srv ''A'' ''INBOX'' None (Some [1, 2, 99])
         connected)))
     = [(''INBOX'', [(1, [flag_Seen]), (2, [flag_Seen]), (3, [])])]
   \<and> fst (imap_delete_email srv ''A'' ''INBOX'' None (Some [1, 99]) connected)
     = Inr \<lparr>success = True, message = ''2 emails deleted''\<rparr>
   \<and> srv_folders (world (snd (imap_delete_email srv ''A'' ''INBOX'' None (Some [1, 99])
         connected)))
     = [(''INBOX'', [(2, []), (3, [])])]"
  by (simp add: imap_mark_as_read_def imap_delete_email_def uidToProcess_def markAsRead_def
      deleteEmail_def selectFolder_def getConnection_def connected_def srv_simps
      flag_Deleted_def done_message_def show_nat.simps)

text \<open>
  Claim C2 as it is stated fails in its last part: when the expunge fails, no unflag is
  attempted. Deleting uid 2 in front of a server whose expunge fails reports the error of
  the expunge; the server has received a select, the store of \<open>\\Deleted\<close> and the
  expunge, and nothing after it, and message 2 stays flagged.
\<close>

theorem deleteEmail_no_unflag_counterexample:
  "fst (deleteEmail srv ''A'' ''INBOX'' (Uid 2) connected_expunge_fails)
     = Inl (LibError ''EXPUNGE failed'')
   \<and> srv_log (world (snd (deleteEmail srv ''A'' ''INBOX'' (Uid 2) connected_expunge_fails)))
     = [CmdConnect ''me@x'', CmdOpenBox 0 ''INBOX'', CmdAddFlags 0 [2] flag_Deleted,
        CmdExpunge 0]
   \<and> srv_folders (world (snd (deleteEmail srv ''A'' ''INBOX'' (Uid 2)
         connected_expunge_fails)))
     = [(''INBOX'', [(1, []), (2, [flag_Deleted]), (3, [])])]"
  by (simp add: deleteEmail_def selectFolder_def getConnection_def
      connected_expunge_fails_def srv_simps)

text \<open>
  Claim C2, amended. Once the folder is selected, \<open>deleteEmail\<close> first sets \<open>\\Deleted\<close> on
  the target uid(s) and then, if that succeeded, issues an expunge on what the store left.
  An error of the store is reported and no expunge follows; an error of the expunge is
  reported to the caller as it came, and the outside state is the one the failed expunge
  left. No compensating unflag is attempted: the operation does not depend on the
  library's \<open>delFlags\<close> at all.
\<close>

theorem deleteEmail_flag_then_expunge:
  assumes "activeConnections st accountId = Some c"
    and "lib_openBox lib c folderName False (world st) = (None, w1)"
  shows "deleteEmail lib accountId folderName uid st =
      (case lib_addFlags lib c uid flag_Deleted w1 of
         (Some err, w2) \<Rightarrow> (Inl (LibError err), st\<lparr>world := w2\<rparr>)
       | (None, w2) \<Rightarrow>
           (case lib_expunge lib c w2 of
              (Some err, w3) \<Rightarrow> (Inl (LibError err), st\<lparr>world := w3\<rparr>)
            | (None, w3) \<Rightarrow> (Inr (), st\<lparr>world := w3\<rparr>)))
    \<and> deleteEmail (lib\<lparr>lib_delFlags := unflag\<rparr>) accountId folderName uid st
      = deleteEmail lib accountId folderName uid st"
  using assms
  by (simp add: deleteEmail_def selectFolder_def getConnection_def
      split: prod.splits option.splits sum.splits)

text \<open>
  Claim C2, amended, in front of the server whose expunge fails: the error reported is the
  error of the expunge, also when the library's \<open>delFlags\<close> is replaced by one that
  always fails.
\<close>

theorem deleteEmail_flag_then_expunge_witness:
  "activeConnections connected_expunge_fails ''A'' = Some 0
   \<and> fst (lib_openBox srv 0 ''INBOX'' False (world connected_expunge_fails)) = None
   \<and> fst (deleteEmail srv ''A'' ''INBOX'' (Uid 2) connected_expunge_fails)
       = Inl (LibError ''EXPUNGE failed'')
   \<and> deleteEmail (srv\<lparr>lib_delFlags := \<lambda>c uid flag w. (Some ''STORE failed'', w)\<rparr>)
         ''A'' ''INBOX'' (Uid 2) connected_expunge_fails
       = deleteEmail srv ''A'' ''INBOX'' (Uid 2) connected_expunge_fails"
proof -
  have conn: "activeConnections connected_expunge_fails ''A'' = Some 0"
    by (simp add: connected_expunge_fails_def)
  have sel: "lib_openBox srv 0 ''INBOX'' False (world connected_expunge_fails)
      = (None, snd (lib_openBox srv 0 ''INBOX'' False (world connected_expunge_fails)))"
    by (simp add: connected_expunge_fails_def srv_simps)
  have run: "fst (case lib_addFlags srv 0 (Uid 2) flag_Deleted
        (snd (lib_openBox srv 0 ''INBOX'' False (world connected_expunge_fails))) of
         (Some err, w2) \<Rightarrow> (Inl (LibError err), connected_expunge_fails\<lparr>world := w2\<rparr>)
       | (None, w2) \<Rightarrow>
           (case lib_expunge srv 0 w2 of
              (Some err, w3) \<Rightarrow> (Inl (LibError err), connected_expunge_fails\<lparr>world := w3\<rparr>)
            | (None, w3) \<Rightarrow> (Inr (), connected_expunge_fails\<lparr>world := w3\<rparr>)))
      = Inl (LibError ''EXPUNGE failed'')"
    by (simp add: connected_expunge_fails_def srv_simps)
  have sel_ok: "fst (lib_openBox srv 0 ''INBOX'' False (world connected_expunge_fails)) = None"
    by (simp add: connected_expunge_fails_def srv_simps)
  note del = deleteEmail_flag_then_expunge [OF conn sel,
      of "Uid 2" "\<lambda>c uid flag w. (Some ''STORE failed'', w)"]
  from del run
  have err: "fst (deleteEmail srv ''A'' ''INBOX'' (Uid 2) connected_expunge_fails)
      = Inl (LibError ''EXPUNGE failed'')"
    by simp
  from del
  have indep: "deleteEmail (srv\<lparr>lib_delFlags := \<lambda>c uid flag w. (Some ''STORE failed'', w)\<rparr>)
        ''A'' ''INBOX'' (Uid 2) connected_expunge_fails
      = deleteEmail srv ''A'' ''INBOX'' (Uid 2) connected_expunge_fails"
    by (rule conjunct2)
  from conn sel_ok err indep show ?thesis
    by (intro conjI)
qed

section \<open>Properties of the mark, delete and move tools\<close>

lemma selectFolder_not_required:
  "selectFolder lib accountId folderName st = (Inl err, st1) \<Longrightarrow> err \<noteq> Error required_message"
  by (auto simp: selectFolder_def getConnection_def required_message_def
      split: option.splits prod.splits)

lemma markAsRead_not_required:
  "fst (markAsRead lib accountId folderName uid st) \<noteq> Inl (Error required_message)"
  by (auto simp: markAsRead_def getConnection_def required_message_def
      split: option.splits prod.splits sum.splits
      dest: selectFolder_not_required [unfolded required_message_def])

lemma markAsUnread_not_required:
  "fst (markAsUnread lib accountId folderName uid st) \<noteq> Inl (Error required_message)"
  by (auto simp: markAsUnread_def getConnection_def required_message_def
      split: option.splits prod.splits sum.splits
      dest: selectFolder_not_required [unfolded required_message_def])

lemma deleteEmail_not_required:
  "fst (deleteEmail lib accountId folderName uid st) \<noteq> Inl (Error required_message)"
  by (auto simp: deleteEmail_def getConnection_def required_message_def
      split: option.splits prod.splits sum.splits
      dest: selectFolder_not_required [unfolded required_message_def])

lemma moveEmail_not_required:
  "fst (moveEmail lib accountId sourceFolder destinationFolder uid st)
     \<noteq> Inl (Error required_message)"
  by (auto simp: moveEmail_def getConnection_def required_message_def
      split: option.splits prod.splits sum.splits
      dest: selectFolder_not_required [unfolded required_message_def])

text \<open>
  Claim C9. Called with neither \<open>uid\<close> nor \<open>uids\<close>, each of the four tools fails with the
  error for bad input (an \<open>Error\<close> whose message is \<open>Either uid or uids parameter is
  required\<close>: the code has no error classes of its own) and leaves the service and
  everything outside as they were, no operation having been called. Called with both, each
  tool does what it does when called with the sequence alone.
\<close>

theorem tools_uid_or_uids:
  "imap_mark_as_read lib accountId folder_arg None None st
     = (Inl (Error ''Either uid or uids parameter is required''), st)
   \<and> imap_mark_as_unread lib accountId folder_arg None None st
     = (Inl (Error ''Either uid or uids parameter is required''), st)
   \<and> imap_delete_email lib accountId folder_arg None None st
     = (Inl (Error ''Either uid or uids parameter is required''), st)
   \<and> imap_move_email lib accountId sourceFolder destinationFolder None None st
     = (Inl (Error ''Either uid or uids parameter is required''), st)
   \<and> uidToProcess (Some n) (Some xs) = Some (Uids xs)
   \<and> imap_mark_as_read lib accountId folder_arg (Some n) (Some xs) st
     = imap_mark_as_read lib accountId folder_arg None (Some xs) st
   \<and> imap_mark_as_unread lib accountId folder_arg (Some n) (Some xs) st
     = imap_mark_as_unread lib accountId folder_arg None (Some xs) st
   \<and> imap_delete_email lib accountId folder_arg (Some n) (Some xs) st
     = imap_delete_email lib accountId folder_arg None (Some xs) st
   \<and> imap_move_email lib accountId sourceFolder destinationFolder (Some n) (Some xs) st
     = imap_move_email lib accountId sourceFolder destinationFolder None (Some xs) st"
  by (simp add: imap_mark_as_read_def imap_mark_as_unread_def imap_delete_email_def
      imap_move_email_def uidToProcess_def required_message_def)

text \<open>
  Claim C10. With \<open>uids\<close> the empty sequence, whatever \<open>uid\<close> is, each of the four tools
  passes the check of its parameters and calls its operation with the empty sequence: the
  outcome is the operation's, success reading \<open>0 emails ...\<close>, and it is never the error
  for a missing parameter. On the server in memory the store is issued with no uid.
\<close>

theorem tools_empty_uids:
  "imap_mark_as_read lib accountId folder_arg uid (Some []) st
     = (case markAsRead lib accountId folder_arg (Uids []) st of
          (Inl err, st1) \<Rightarrow> (Inl err, st1)
        | (Inr _, st1) \<Rightarrow>
            (Inr \<lparr>success = True, message = ''0 emails marked as read''\<rparr>, st1))
   \<and> imap_mark_as_unread lib accountId folder_arg uid (Some []) st
     = (case markAsUnread lib accountId folder_arg (Uids []) st of
          (Inl err, st1) \<Rightarrow> (Inl err, st1)
        | (Inr _, st1) \<Rightarrow>
            (Inr \<lparr>success = True, message = ''0 emails marked as unread''\<rparr>, st1))
   \<and> imap_delete_email lib accountId folder_arg uid (Some []) st
     = (case deleteEmail lib accountId folder_arg (Uids []) st of
          (Inl err, st1) \<Rightarrow> (Inl err, st1)
        | (Inr _, st1) \<Rightarrow> (Inr \<lparr>success = True, message = ''0 emails deleted''\<rparr>, st1))
   \<and> fst (imap_move_email lib accountId sourceFolder destinationFolder uid (Some []) st)
     = map_sum id (\<lambda>_. \<lparr>success = True,
          message = ''0 emails moved from '' @ [CHR 0x27] @ sourceFolder @ [CHR 0x27]
            @ '' to '' @ [CHR 0x27] @ destinationFolder @ [CHR 0x27]\<rparr>)
        (fst (moveEmail lib accountId sourceFolder destinationFolder (Uids []) st))
   \<and> snd (imap_move_email lib accountId sourceFolder destinationFolder uid (Some []) st)
     = snd (moveEmail lib accountId sourceFolder destinationFolder (Uids []) st)
   \<and> fst (imap_mark_as_read lib accountId folder_arg uid (Some []) st)
     \<noteq> Inl (Error ''Either uid or uids parameter is required'')
   \<and> fst (imap_mark_as_unread lib accountId folder_arg uid (Some []) st)
     \<noteq> Inl (Error ''Either uid or uids parameter is required'')
   \<and> fst (imap_delete_email lib accountId folder_arg uid (Some []) st)
     \<noteq> Inl (Error ''Either uid or uids parameter is required'')
   \<and> fst (imap_move_email lib accountId sourceFolder destinationFolder uid (Some []) st)
     \<noteq> Inl (Error ''Either uid or uids parameter is required'')
   \<and> fst (imap_mark_as_read srv ''A'' ''INBOX'' (Some 5) (Some []) connected)
     = Inr \<lparr>success = True, message = ''0 emails marked as read''\<rparr>
   \<and> srv_log (world (snd (imap_mark_as_read srv ''A'' ''INBOX'' (Some 5) (Some []) connected)))
     = [CmdConnect ''me@x'', CmdOpenBox 0 ''INBOX'', CmdAddFlags 0 [] flag_Seen]"
proof -
  have zero: "show_nat 0 = ''0''"
    by (simp add: show_nat.simps)
  have read: "imap_mark_as_read lib accountId folder_arg uid (Some []) st
     = (case markAsRead lib accountId folder_arg (Uids []) st of
          (Inl err, st1) \<Rightarrow> (Inl err, st1)
        | (Inr _, st1) \<Rightarrow>
            (Inr \<lparr>success = True, message = ''0 emails marked as read''\<rparr>, st1))"
    by (simp add: imap_mark_as_read_def uidToProcess_def done_message_def zero
        split: prod.splits sum.splits)
  have unread: "imap_mark_as_unread lib accountId folder_arg uid (Some []) st
     = (case markAsUnread lib accountId folder_arg (Uids []) st of
          (Inl err, st1) \<Rightarrow> (Inl err, st1)
        | (Inr _, st1) \<Rightarrow>
            (Inr \<lparr>success = True, message = ''0 emails marked as unread''\<rparr>, st1))"
    by (simp add: imap_mark_as_unread_def uidToProcess_def done_message_def zero
        split: prod.splits sum.splits)
  have delete: "imap_delete_email lib accountId folder_arg uid (Some []) st
     = (case deleteEmail lib accountId folder_arg (Uids []) st of
          (Inl err, st1) \<Rightarrow> (Inl err, st1)
        | (Inr _, st1) \<Rightarrow> (Inr \<lparr>success = True, message = ''0 emails deleted''\<rparr>, st1))"
    by (simp add: imap_delete_email_def uidToProcess_def done_message_def zero
        split: prod.splits sum.splits)
  have move: "imap_move_email lib accountId sourceFolder destinationFolder uid (Some []) st
     = (case moveEmail lib accountId sourceFolder destinationFolder (Uids []) st of
          (Inl err, st1) \<Rightarrow> (Inl err, st1)
        | (Inr _, st1) \<Rightarrow>
            (Inr \<lparr>success = True,
                  message = ''0 emails moved from '' @ [CHR 0x27] @ sourceFolder @ [CHR 0x27]
                    @ '' to '' @ [CHR 0x27] @ destinationFolder @ [CHR 0x27]\<rparr>, st1))"
    by (simp add: imap_move_email_def uidToProcess_def done_message_def zero
        split: prod.splits sum.splits)
  have move_fst:
    "fst (imap_move_email lib accountId sourceFolder destinationFolder uid (Some []) st)
     = map_sum id (\<lambda>_. \<lparr>success = True,
          message = ''0 emails moved from '' @ [CHR 0x27] @ sourceFolder @ [CHR 0x27]
            @ '' to '' @ [CHR 0x27] @ destinationFolder @ [CHR 0x27]\<rparr>)
        (fst (moveEmail lib accountId sourceFolder destinationFolder (Uids []) st))"
    unfolding move by (simp split: prod.splits sum.splits)
  have move_snd:
    "snd (imap_move_email lib accountId sourceFolder destinationFolder uid (Some []) st)
     = snd (moveEmail lib accountId sourceFolder destinationFolder (Uids []) st)"
    unfolding move by (simp split: prod.splits sum.splits)
  have r1: "fst (imap_mark_as_read lib accountId folder_arg uid (Some []) st)
     \<noteq> Inl (Error ''Either uid or uids parameter is required'')"
    using markAsRead_not_required [of lib accountId folder_arg "Uids []" st]
    unfolding read by (auto simp: required_message_def split: prod.splits sum.splits)
  have r2: "fst (imap_mark_as_unread lib accountId folder_arg uid (Some []) st)
     \<noteq> Inl (Error ''Either uid or uids parameter is required'')"
    using markAsUnread_not_required [of lib accountId folder_arg "Uids []" st]
    unfolding unread by (auto simp: required_message_def split: prod.splits sum.splits)
  have r3: "fst (imap_delete_email lib accountId folder_arg uid (Some []) st)
     \<noteq> Inl (Error ''Either uid or uids parameter is required'')"
    using deleteEmail_not_required [of lib accountId folder_arg "Uids []" st]
    unfolding delete by (auto simp: required_message_def split: prod.splits sum.splits)
  have r4: "fst (imap_move_email lib accountId sourceFolder destinationFolder uid (Some []) st)
     \<noteq> Inl (Error ''Either uid or uids parameter is required'')"
    using moveEmail_not_required [of lib accountId sourceFolder destinationFolder "Uids []" st]
    unfolding move by (auto simp: required_message_def split: prod.splits sum.splits)
  have run: "fst (imap_mark_as_read srv ''A'' ''INBOX'' (Some 5) (Some []) connected)
       = Inr \<lparr>success = True, message = ''0 emails marked as read''\<rparr>
     \<and> srv_log (world (snd (imap_mark_as_read srv ''A'' ''INBOX'' (Some 5) (Some []) connected)))
       = [CmdConnect ''me@x'', CmdOpenBox 0 ''INBOX'', CmdAddFlags 0 [] flag_Seen]"
    by (simp add: imap_mark_as_read_def uidToProcess_def markAsRead_def selectFolder_def
        getConnection_def connected_def srv_simps done_message_def zero)
  from read unread delete move_fst move_snd r1 r2 r3 r4 run show ?thesis
    by (intro conjI) simp_all
qed

end
